theory Spec2Isabelle
  imports Complex_Main
begin

section \<open>Data model (storage_app/models.py)\<close>

text \<open>
  Primary keys (Django UUIDs, user ids) are natural numbers; byte counts are Python's
  unbounded integers. Each table is the list of its rows; the profile table is keyed by
  its one-to-one user. Only the columns read by the storage accounting, the trash
  lifecycle and the share links are kept. A nullable foreign key is an \<open>option\<close>.
\<close>

type_synonym user_id = nat
type_synonym uuid = nat

record StoragePlan =
  max_storage_size :: int
  max_file_size :: int

record UserProfile =
  storage_plan :: "StoragePlan option"
  used_storage :: int

record Folder =
  folder_id :: uuid
  folder_owner :: user_id
  parent_folder :: "uuid option"
  folder_is_deleted :: bool

record File =
  file_id :: uuid
  file_owner :: user_id
  file_folder :: "uuid option"
  file_size :: int
  file_is_deleted :: bool

record Trash =
  trash_id :: nat
  trash_user :: user_id
  trash_file :: "uuid option"
  trash_folder :: "uuid option"
  original_folder :: "uuid option"
  scheduled_permanent_deletion :: int

record ShareLink =
  link_file :: "uuid option"
  link_folder :: "uuid option"
  token :: string
  expires_at :: "int option"
  is_active :: bool
  require_password :: bool
  password_hash :: "string option"

text \<open>
  The database, together with the object store: \<open>blobs\<close> lists the files whose
  backing blob is stored. \<open>next_trash_id\<close> is the auto-increment counter of the
  Trash table, which is kept in its default order, newest first
  (\<open>ordering = ['-deleted_at']\<close>). Sessions live in the database
  (\<open>SESSION_ENGINE = 'django.contrib.sessions.backends.db'\<close>): one dictionary per
  session key.
\<close>

record db =
  profiles :: "user_id \<rightharpoonup> UserProfile"
  folders :: "Folder list"
  files :: "File list"
  trash :: "Trash list"
  next_trash_id :: nat
  share_links :: "ShareLink list"
  sessions :: "nat \<Rightarrow> string \<rightharpoonup> bool"
  blobs :: "uuid list"

datatype http_method = GET | POST

datatype exn =
  Http404 | MultipleObjectsReturned | DoesNotExist | AttributeError
  | ZeroDivisionError | RecursionError | StorageBackendFailure | DatabaseFailure

datatype error_msg =
  FileSizeExceedsLimit | StorageLimitExceeded | InvalidFile | InvalidRequest
  | InvalidRequestMethod | NotPasswordProtected | PasswordIsRequired | InvalidPassword
  | Caught exn

text \<open>
  What a JSON view answers: \<open>{'success': True}\<close>, the same with a count,
  \<open>{'success': False, 'error': ...}\<close>, or an exception that no handler of the view
  catches.
\<close>

datatype response = JsonSuccess | JsonCount nat | JsonError error_msg | Raised exn

subsection \<open>Querysets\<close>

text \<open>\<open>QuerySet.get\<close> on the rows a filter selected, as \<open>get_object_or_404\<close> uses it.\<close>

definition get_object_or_404 :: "'a list \<Rightarrow> exn + 'a" where
  "get_object_or_404 rows =
     (case rows of [] \<Rightarrow> Inl Http404 | [x] \<Rightarrow> Inr x | _ \<Rightarrow> Inl MultipleObjectsReturned)"

section \<open>Quota queries of UserProfile\<close>

text \<open>
  \<open>get_storage_usage_percent\<close> divides in floating point; the model divides in the
  reals and writes out the division by zero that Python raises.
\<close>

definition get_storage_usage_percent :: "UserProfile \<Rightarrow> exn + real" where
  "get_storage_usage_percent p =
     (case storage_plan p of
        Some plan \<Rightarrow>
          (if max_storage_size plan = 0 then Inl ZeroDivisionError
           else Inr (real_of_int (used_storage p) / real_of_int (max_storage_size plan) * 100))
      | None \<Rightarrow> Inr 0)"

definition can_upload_file :: "UserProfile \<Rightarrow> int \<Rightarrow> bool" where
  "can_upload_file p file_sz =
     (case storage_plan p of
        None \<Rightarrow> False
      | Some plan \<Rightarrow>
          (if used_storage p + file_sz > max_storage_size plan then False else True))"

section \<open>Upload (views.upload_file)\<close>

text \<open>
  The upload form has the fields \<open>file\<close> and \<open>is_public\<close> only, so a new file has no
  folder. \<open>new_id\<close> is the UUID drawn for the row, \<open>sz\<close> the size of the uploaded
  content. Saving the row stores the blob.
\<close>

definition upload_file ::
  "http_method \<Rightarrow> bool \<Rightarrow> user_id \<Rightarrow> uuid \<Rightarrow> int \<Rightarrow> db \<Rightarrow> response \<times> db" where
  "upload_file method form_is_valid u new_id sz d =
     (if method \<noteq> POST then (JsonError InvalidRequest, d)
      else if \<not> form_is_valid then (JsonError InvalidFile, d)
      else case profiles d u of
        None \<Rightarrow> (Raised DoesNotExist, d)
      | Some user_profile \<Rightarrow>
          (case storage_plan user_profile of
             None \<Rightarrow> (Raised AttributeError, d)
           | Some plan \<Rightarrow>
               if sz > max_file_size plan then (JsonError FileSizeExceedsLimit, d)
               else if used_storage user_profile + sz > max_storage_size plan
                 then (JsonError StorageLimitExceeded, d)
               else
                 (JsonSuccess,
                  d\<lparr>files := files d @
                       [\<lparr>file_id = new_id, file_owner = u, file_folder = None,
                         file_size = sz, file_is_deleted = False\<rparr>],
                    blobs := blobs d @ [new_id],
                    profiles := (profiles d)(u \<mapsto>
                       user_profile\<lparr>used_storage := used_storage user_profile + sz\<rparr>)\<rparr>)))"

text \<open>The counter of a user, when the profile exists.\<close>

definition used_storage_of :: "db \<Rightarrow> user_id \<Rightarrow> int option" where
  "used_storage_of d u = map_option used_storage (profiles d u)"

text \<open>An empty database in which user \<open>u\<close> has a profile with the given plan.\<close>

definition fresh_db :: "user_id \<Rightarrow> StoragePlan option \<Rightarrow> db" where
  "fresh_db u plan =
     \<lparr>profiles = [u \<mapsto> \<lparr>storage_plan = plan, used_storage = 0\<rparr>],
      folders = [], files = [], trash = [], next_trash_id = 0,
      share_links = [], sessions = (\<lambda>_. Map.empty), blobs = []\<rparr>"

section \<open>Row operations of the ORM\<close>

text \<open>
  \<open>obj.save()\<close> writes every column of the in-memory object to the row with its
  primary key.
\<close>

definition File_save :: "File \<Rightarrow> db \<Rightarrow> db" where
  "File_save obj d =
     d\<lparr>files := map (\<lambda>f. if file_id f = file_id obj then obj else f) (files d)\<rparr>"

definition Folder_save :: "Folder \<Rightarrow> db \<Rightarrow> db" where
  "Folder_save obj d =
     d\<lparr>folders := map (\<lambda>x. if folder_id x = folder_id obj then obj else x) (folders d)\<rparr>"

text \<open>
  \<open>Trash.objects.create(...)\<close> with \<open>scheduled_permanent_deletion = now + 30 days\<close>
  (in seconds).
\<close>

definition Trash_create ::
  "user_id \<Rightarrow> uuid option \<Rightarrow> uuid option \<Rightarrow> uuid option \<Rightarrow> int \<Rightarrow> db \<Rightarrow> db" where
  "Trash_create u fi fo orig now d =
     d\<lparr>trash :=
         \<lparr>trash_id = next_trash_id d, trash_user = u, trash_file = fi, trash_folder = fo,
          original_folder = orig, scheduled_permanent_deletion = now + 30 * 86400\<rparr> # trash d,
       next_trash_id := Suc (next_trash_id d)\<rparr>"

definition Trash_delete :: "nat \<Rightarrow> db \<Rightarrow> db" where
  "Trash_delete pk d = d\<lparr>trash := filter (\<lambda>t. trash_id t \<noteq> pk) (trash d)\<rparr>"

text \<open>\<open>Trash.objects.filter(...).delete()\<close>.\<close>

definition Trash_filter_delete :: "(Trash \<Rightarrow> bool) \<Rightarrow> db \<Rightarrow> db" where
  "Trash_filter_delete sel d = d\<lparr>trash := filter (\<lambda>t. \<not> sel t) (trash d)\<rparr>"

text \<open>
  \<open>file.delete()\<close>: the row goes, and with it the rows that reference it with
  \<open>on_delete=CASCADE\<close> (\<open>Trash.file\<close>, \<open>ShareLink.file\<close>). The blob is not touched.
\<close>

definition File_delete :: "uuid \<Rightarrow> db \<Rightarrow> db" where
  "File_delete fid d =
     d\<lparr>trash := filter (\<lambda>t. trash_file t \<noteq> Some fid) (trash d),
       share_links := filter (\<lambda>l. link_file l \<noteq> Some fid) (share_links d),
       files := filter (\<lambda>f. file_id f \<noteq> fid) (files d)\<rparr>"

text \<open>
  \<open>folder.delete()\<close>. \<open>CASCADE\<close>: \<open>File.folder\<close> (and through the files their
  Trash and ShareLink rows), \<open>Trash.folder\<close>, \<open>ShareLink.folder\<close>. \<open>SET_NULL\<close>:
  \<open>Folder.parent_folder\<close> and \<open>Trash.original_folder\<close>.
\<close>

definition Folder_delete :: "uuid \<Rightarrow> db \<Rightarrow> db" where
  "Folder_delete g d =
     (let doomed = map file_id (filter (\<lambda>f. file_folder f = Some g) (files d)) in
      d\<lparr>files := filter (\<lambda>f. file_folder f \<noteq> Some g) (files d),
        trash :=
          map (\<lambda>t. if original_folder t = Some g then t\<lparr>original_folder := None\<rparr> else t)
            (filter (\<lambda>t. trash_folder t \<noteq> Some g \<and>
                        (case trash_file t of None \<Rightarrow> True | Some i \<Rightarrow> i \<notin> set doomed))
               (trash d)),
        share_links :=
          filter (\<lambda>l. link_folder l \<noteq> Some g \<and>
                      (case link_file l of None \<Rightarrow> True | Some i \<Rightarrow> i \<notin> set doomed))
            (share_links d),
        folders :=
          map (\<lambda>x. if parent_folder x = Some g then x\<lparr>parent_folder := None\<rparr> else x)
            (filter (\<lambda>x. folder_id x \<noteq> g) (folders d))\<rparr>)"

text \<open>\<open>file_obj.file.delete(save=False)\<close>: the blob leaves the object store.\<close>

definition blob_delete :: "uuid \<Rightarrow> db \<Rightarrow> db" where
  "blob_delete fid d = d\<lparr>blobs := removeAll fid (blobs d)\<rparr>"

text \<open>
  The statements of a purge that reach the store or the object store can raise. Which
  of them do, for which file, is a parameter of the views that a claim about failures
  speaks of.
\<close>

datatype stmt = ProfileSave | BlobDelete | TrashDelete | FileDelete

type_synonym faults = "stmt \<Rightarrow> uuid \<Rightarrow> bool"

definition no_faults :: faults where
  "no_faults = (\<lambda>_ _. False)"

section \<open>Trash of single files (views.move_to_trash, restore_file, permanent_delete_file)\<close>

definition move_to_trash :: "http_method \<Rightarrow> int \<Rightarrow> user_id \<Rightarrow> uuid \<Rightarrow> db \<Rightarrow> response \<times> db" where
  "move_to_trash method now u fid d =
     (if method = POST then
        (case get_object_or_404
                (filter (\<lambda>f. file_id f = fid \<and> file_owner f = u) (files d)) of
           Inl e \<Rightarrow> (JsonError (Caught e), d)
         | Inr file_obj \<Rightarrow>
             (JsonSuccess,
              File_save (file_obj\<lparr>file_is_deleted := True\<rparr>)
                (Trash_create u (Some fid) None (file_folder file_obj) now d)))
      else (JsonError InvalidRequestMethod, d))"

definition restore_file :: "http_method \<Rightarrow> user_id \<Rightarrow> uuid \<Rightarrow> db \<Rightarrow> response \<times> db" where
  "restore_file method u fid d =
     (if method = POST then
        (case get_object_or_404
                (filter (\<lambda>f. file_id f = fid \<and> file_owner f = u \<and> file_is_deleted f)
                   (files d)) of
           Inl e \<Rightarrow> (JsonError (Caught e), d)
         | Inr file_obj \<Rightarrow>
             (case get_object_or_404
                     (filter (\<lambda>t. trash_file t = Some fid \<and> trash_user t = u) (trash d)) of
                Inl e \<Rightarrow> (JsonError (Caught e), d)
              | Inr trash_item \<Rightarrow>
                  (JsonSuccess,
                   Trash_delete (trash_id trash_item)
                     (File_save (file_obj\<lparr>file_is_deleted := False\<rparr>) d))))
      else (JsonError InvalidRequestMethod, d))"

text \<open>
  The statements run in the order of the source: the profile is saved with the
  decremented counter, then the blob, the Trash row and the File row are deleted. The
  view has no transaction, so a statement that raises leaves what was written before.
\<close>

definition permanent_delete_file ::
  "faults \<Rightarrow> http_method \<Rightarrow> user_id \<Rightarrow> uuid \<Rightarrow> db \<Rightarrow> response \<times> db" where
  "permanent_delete_file raises method u fid d =
     (if method = POST then
        (case get_object_or_404
                (filter (\<lambda>f. file_id f = fid \<and> file_owner f = u \<and> file_is_deleted f)
                   (files d)) of
           Inl e \<Rightarrow> (JsonError (Caught e), d)
         | Inr file_obj \<Rightarrow>
             (case get_object_or_404
                     (filter (\<lambda>t. trash_file t = Some fid \<and> trash_user t = u) (trash d)) of
                Inl e \<Rightarrow> (JsonError (Caught e), d)
              | Inr trash_item \<Rightarrow>
                  (case profiles d u of
                     None \<Rightarrow> (JsonError (Caught DoesNotExist), d)
                   | Some user_profile \<Rightarrow>
                       if raises ProfileSave fid then (JsonError (Caught DatabaseFailure), d)
                       else
                         let d1 = d\<lparr>profiles := (profiles d)(u \<mapsto>
                                   user_profile\<lparr>used_storage :=
                                     used_storage user_profile - file_size file_obj\<rparr>)\<rparr>
                         in if raises BlobDelete fid
                            then (JsonError (Caught StorageBackendFailure), d1)
                            else
                              let d2 = blob_delete fid d1
                              in if raises TrashDelete fid
                                 then (JsonError (Caught DatabaseFailure), d2)
                                 else
                                   let d3 = Trash_delete (trash_id trash_item) d2
                                   in if raises FileDelete fid
                                      then (JsonError (Caught DatabaseFailure), d3)
                                      else (JsonSuccess, File_delete fid d3))))
      else (JsonError InvalidRequestMethod, d))"

section \<open>Emptying the trash (views.empty_trash)\<close>

text \<open>
  The body of the loop, for one Trash row. \<open>trash_item.file\<close> is \<open>None\<close> for the row
  of a folder, and \<open>None.file\<close> raises; for a row whose file is gone the fetch raises.
\<close>

definition purge_trash_item :: "faults \<Rightarrow> Trash \<Rightarrow> db \<Rightarrow> exn + db" where
  "purge_trash_item raises trash_item d =
     (case trash_file trash_item of
        None \<Rightarrow> Inl AttributeError
      | Some fid \<Rightarrow>
          (case filter (\<lambda>f. file_id f = fid) (files d) of
             [] \<Rightarrow> Inl DoesNotExist
           | file_obj # _ \<Rightarrow>
               if raises BlobDelete fid then Inl StorageBackendFailure
               else if raises TrashDelete fid then Inl DatabaseFailure
               else if raises FileDelete fid then Inl DatabaseFailure
               else Inr (File_delete fid
                           (Trash_delete (trash_id trash_item) (blob_delete fid d)))))"

text \<open>
  What a raising body leaves behind: the statements before the one that raised.
\<close>

definition purge_trash_item_partial :: "faults \<Rightarrow> Trash \<Rightarrow> db \<Rightarrow> db" where
  "purge_trash_item_partial raises trash_item d =
     (case trash_file trash_item of
        None \<Rightarrow> d
      | Some fid \<Rightarrow>
          (case filter (\<lambda>f. file_id f = fid) (files d) of
             [] \<Rightarrow> d
           | file_obj # _ \<Rightarrow>
               if raises BlobDelete fid then d
               else if raises TrashDelete fid then blob_delete fid d
               else Trash_delete (trash_id trash_item) (blob_delete fid d)))"

text \<open>
  The loop runs inside the one \<open>try\<close> of the view: the first exception leaves it. The
  result is the exception or the final \<open>deleted_count\<close>, and the database as the loop
  left it.
\<close>

fun empty_trash_loop :: "faults \<Rightarrow> Trash list \<Rightarrow> nat \<Rightarrow> db \<Rightarrow> (exn + nat) \<times> db" where
  "empty_trash_loop raises [] deleted_count d = (Inr deleted_count, d)"
| "empty_trash_loop raises (trash_item # rest) deleted_count d =
     (case purge_trash_item raises trash_item d of
        Inl e \<Rightarrow> (Inl e, purge_trash_item_partial raises trash_item d)
      | Inr d' \<Rightarrow> empty_trash_loop raises rest (Suc deleted_count) d')"

definition empty_trash :: "faults \<Rightarrow> http_method \<Rightarrow> user_id \<Rightarrow> db \<Rightarrow> response \<times> db" where
  "empty_trash raises method u d =
     (if method = POST then
        (case empty_trash_loop raises (filter (\<lambda>t. trash_user t = u) (trash d)) 0 d of
           (Inl e, d') \<Rightarrow> (JsonError (Caught e), d')
         | (Inr deleted_count, d') \<Rightarrow> (JsonCount deleted_count, d'))
      else (JsonError InvalidRequestMethod, d))"

section \<open>Dashboard (views.dashboard)\<close>

text \<open>
  The view overwrites \<open>used_storage\<close> with the sum over the user's files that are not
  in the trash, and creates a missing profile on the free plan (\<open>free_plan\<close> is the row
  that \<open>get_or_create(plan_type='free')\<close> returns). It then renders the usage percent.
\<close>

definition dashboard :: "StoragePlan \<Rightarrow> user_id \<Rightarrow> db \<Rightarrow> (exn + real) \<times> db" where
  "dashboard free_plan u d =
     (let user_profile =
            (case profiles d u of
               Some p \<Rightarrow> p
             | None \<Rightarrow> \<lparr>storage_plan = Some free_plan, used_storage = 0\<rparr>);
          total_size =
            sum_list (map file_size
              (filter (\<lambda>f. file_owner f = u \<and> \<not> file_is_deleted f) (files d)));
          user_profile' = user_profile\<lparr>used_storage := total_size\<rparr>
      in (get_storage_usage_percent user_profile',
          d\<lparr>profiles := (profiles d)(u \<mapsto> user_profile')\<rparr>))"

section \<open>Trash of folders (views.move_folder_to_trash, restore_folder)\<close>

text \<open>The loop over the files of one folder, each with its own Trash row.\<close>

fun trash_files :: "int \<Rightarrow> user_id \<Rightarrow> uuid \<Rightarrow> File list \<Rightarrow> db \<Rightarrow> db" where
  "trash_files now u fo [] d = d"
| "trash_files now u fo (file_obj # rest) d =
     trash_files now u fo rest
       (Trash_create u (Some (file_id file_obj)) None (Some fo) now
          (File_save (file_obj\<lparr>file_is_deleted := True\<rparr>) d))"

text \<open>
  \<open>delete_subfolders_recursive\<close>. The loop runs over the subfolders that the query
  returned when the loop began. \<open>depth\<close> is the call depth the interpreter still
  allows: at depth 0 the call raises \<open>RecursionError\<close>. The result is the exception, if
  any, and the database as it was left.
\<close>

fun trash_subfolders ::
  "(uuid \<Rightarrow> db \<Rightarrow> exn option \<times> db) \<Rightarrow> int \<Rightarrow> user_id \<Rightarrow> uuid \<Rightarrow> Folder list \<Rightarrow> db
     \<Rightarrow> exn option \<times> db" where
  "trash_subfolders recurse now u parent [] d = (None, d)"
| "trash_subfolders recurse now u parent (subfolder # rest) d =
     (let d1 = Folder_save (subfolder\<lparr>folder_is_deleted := True\<rparr>) d;
          d2 = Trash_create u None (Some (folder_id subfolder)) (Some parent) now d1;
          d3 = trash_files now u (folder_id subfolder)
                 (filter (\<lambda>f. file_folder f = Some (folder_id subfolder) \<and> \<not> file_is_deleted f)
                    (files d2)) d2
      in case recurse (folder_id subfolder) d3 of
           (Some e, d4) \<Rightarrow> (Some e, d4)
         | (None, d4) \<Rightarrow> trash_subfolders recurse now u parent rest d4)"

primrec delete_subfolders_recursive ::
  "nat \<Rightarrow> int \<Rightarrow> user_id \<Rightarrow> uuid \<Rightarrow> db \<Rightarrow> exn option \<times> db" where
  "delete_subfolders_recursive 0 now u parent_folder' d = (Some RecursionError, d)"
| "delete_subfolders_recursive (Suc depth) now u parent_folder' d =
     trash_subfolders (delete_subfolders_recursive depth now u) now u parent_folder'
       (filter (\<lambda>x. parent_folder x = Some parent_folder' \<and> \<not> folder_is_deleted x) (folders d))
       d"

definition move_folder_to_trash ::
  "nat \<Rightarrow> http_method \<Rightarrow> int \<Rightarrow> user_id \<Rightarrow> uuid \<Rightarrow> db \<Rightarrow> response \<times> db" where
  "move_folder_to_trash depth method now u gid d =
     (if method = POST then
        (case get_object_or_404
                (filter (\<lambda>x. folder_id x = gid \<and> folder_owner x = u \<and> \<not> folder_is_deleted x)
                   (folders d)) of
           Inl e \<Rightarrow> (JsonError (Caught e), d)
         | Inr folder \<Rightarrow>
             (let d1 = Trash_create u None (Some gid) (parent_folder folder) now d;
                  d2 = Folder_save (folder\<lparr>folder_is_deleted := True\<rparr>) d1;
                  d3 = trash_files now u gid
                         (filter (\<lambda>f. file_folder f = Some gid \<and> \<not> file_is_deleted f)
                            (files d2)) d2
              in case delete_subfolders_recursive depth now u gid d3 of
                   (Some e, d4) \<Rightarrow> (JsonError (Caught e), d4)
                 | (None, d4) \<Rightarrow> (JsonSuccess, d4)))
      else (JsonError InvalidRequestMethod, d))"





section \<open>Purge of a folder (views.permanent_delete_folder)\<close>

text \<open>
  The view deletes the blobs and rows of the files directly in the folder, calls
  \<open>delete()\<close> on each direct subfolder, then deletes the Trash row and the folder.
  There is no recursive call: what lies below a subfolder is left to the
  \<open>on_delete\<close> rules of \<open>Folder_delete\<close>.
\<close>

definition permanent_delete_folder ::
  "http_method \<Rightarrow> user_id \<Rightarrow> uuid \<Rightarrow> db \<Rightarrow> response \<times> db" where
  "permanent_delete_folder method u gid d =
     (if method = POST then
        (case get_object_or_404
                (filter (\<lambda>x. folder_id x = gid \<and> folder_owner x = u \<and> folder_is_deleted x)
                   (folders d)) of
           Inl e \<Rightarrow> (JsonError (Caught e), d)
         | Inr folder \<Rightarrow>
             (case get_object_or_404
                     (filter (\<lambda>t. trash_folder t = Some gid \<and> trash_user t = u) (trash d)) of
                Inl e \<Rightarrow> (JsonError (Caught e), d)
              | Inr trash_item \<Rightarrow>
                  (let d1 = fold (\<lambda>file. File_delete (file_id file) \<circ> blob_delete (file_id file))
                              (filter (\<lambda>f. file_folder f = Some gid) (files d)) d;
                       d2 = fold (\<lambda>subfolder. Folder_delete (folder_id subfolder))
                              (filter (\<lambda>x. parent_folder x = Some gid) (folders d1)) d1
                   in (JsonSuccess, Folder_delete gid (Trash_delete (trash_id trash_item) d2)))))
      else (JsonError InvalidRequestMethod, d))"

section \<open>Share links (ShareLink, views.share_file, views.verify_share_password)\<close>

definition has_password :: "ShareLink \<Rightarrow> bool" where
  "has_password l =
     (require_password l \<and> (case password_hash l of None \<Rightarrow> False | Some h \<Rightarrow> h \<noteq> []))"

text \<open>
  \<open>hasher raw encoded\<close> stands for Django's \<open>check_password\<close> of
  \<open>django.contrib.auth.hashers\<close>.
\<close>

definition check_password :: "(string \<Rightarrow> string \<Rightarrow> bool) \<Rightarrow> ShareLink \<Rightarrow> string \<Rightarrow> bool" where
  "check_password hasher l password =
     (case password_hash l of
        None \<Rightarrow> False
      | Some h \<Rightarrow> if h = [] then False else hasher password h)"

definition share_verified_key :: "string \<Rightarrow> string" where
  "share_verified_key tok = ''share_verified_'' @ tok"

datatype page =
  ShareFilePage uuid | ShareExpiredPage | SharePasswordPage
  | ShareNotFoundOrInactive | ShareErrorPage exn

text \<open>
  \<open>share_file\<close> for the request of session \<open>sid\<close> at time \<open>now\<close>. The view writes
  nothing; the database is returned so that this can be stated. Signing the download
  URL is left to the object store.
\<close>

definition share_file :: "int \<Rightarrow> nat \<Rightarrow> string \<Rightarrow> db \<Rightarrow> page \<times> db" where
  "share_file now sid tok d =
     (case get_object_or_404 (filter (\<lambda>l. token l = tok \<and> is_active l) (share_links d)) of
        Inl Http404 \<Rightarrow> (ShareNotFoundOrInactive, d)
      | Inl e \<Rightarrow> (ShareErrorPage e, d)
      | Inr share_link \<Rightarrow>
          if (case expires_at share_link of None \<Rightarrow> False | Some t \<Rightarrow> t < now)
          then (ShareExpiredPage, d)
          else if has_password share_link
                  \<and> sessions d sid (share_verified_key tok) \<noteq> Some True
          then (SharePasswordPage, d)
          else (case link_file share_link of
                  None \<Rightarrow> (ShareErrorPage AttributeError, d)
                | Some fid \<Rightarrow> (ShareFilePage fid, d)))"

definition verify_share_password ::
  "(string \<Rightarrow> string \<Rightarrow> bool) \<Rightarrow> http_method \<Rightarrow> nat \<Rightarrow> string \<Rightarrow> string option \<Rightarrow> db
     \<Rightarrow> response \<times> db" where
  "verify_share_password hasher method sid tok password d =
     (if method = POST then
        (case get_object_or_404 (filter (\<lambda>l. token l = tok \<and> is_active l) (share_links d)) of
           Inl e \<Rightarrow> (JsonError (Caught e), d)
         | Inr share_link \<Rightarrow>
             if \<not> has_password share_link then (JsonError NotPasswordProtected, d)
             else
               (case password of
                  None \<Rightarrow> (JsonError PasswordIsRequired, d)
                | Some pw \<Rightarrow>
                    if pw = [] then (JsonError PasswordIsRequired, d)
                    else if check_password hasher share_link pw
                    then (JsonSuccess,
                          d\<lparr>sessions := (sessions d)
                               (sid := (sessions d sid)(share_verified_key tok \<mapsto> True))\<rparr>)
                    else (JsonError InvalidPassword, d)))
      else (JsonError InvalidRequestMethod, d))"

section \<open>Example states\<close>

definition example_plan :: StoragePlan where
  "example_plan = \<lparr>max_storage_size = 1000, max_file_size = 400\<rparr>"

text \<open>The scenario of four uploads of user 1 on \<open>example_plan\<close>: 300, 400, 400, 300.\<close>

definition upload_scenario :: "(response \<times> db) list" where
  "upload_scenario =
     (let r1 = upload_file POST True 1 10 300 (fresh_db 1 (Some example_plan));
          r2 = upload_file POST True 1 11 400 (snd r1);
          r3 = upload_file POST True 1 12 400 (snd r2);
          r4 = upload_file POST True 1 13 300 (snd r3)
      in [r1, r2, r3, r4])"

text \<open>
  A file share link with a password, active, without expiry, and the same link with an
  expiry at time 50. The hasher of the examples accepts the raw password \<open>pw\<close> for the
  stored hash \<open>hash:pw\<close>.
\<close>

definition example_link :: ShareLink where
  "example_link =
     \<lparr>link_file = Some 10, link_folder = None, token = ''t0'', expires_at = None,
      is_active = True, require_password = True, password_hash = Some ''hash:secret''\<rparr>"

definition example_hasher :: "string \<Rightarrow> string \<Rightarrow> bool" where
  "example_hasher raw encoded = (encoded = ''hash:'' @ raw)"

definition share_db :: "ShareLink \<Rightarrow> db" where
  "share_db l = (fresh_db 1 (Some example_plan))\<lparr>share_links := [l]\<rparr>"

text \<open>
  Quota conservation, as a predicate: the counter of \<open>u\<close> is the sum of the sizes of
  the File rows that \<open>u\<close> owns, the trashed ones included.
\<close>

definition quota_conserved :: "db \<Rightarrow> user_id \<Rightarrow> bool" where
  "quota_conserved d u =
     (used_storage_of d u =
        Some (sum_list (map file_size (filter (\<lambda>f. file_owner f = u) (files d)))))"

text \<open>User 1 with folder 1, which holds file 10 of 300 bytes.\<close>

definition flat_db :: db where
  "flat_db =
     (fresh_db 1 (Some example_plan))
       \<lparr>profiles := [1 \<mapsto> \<lparr>storage_plan = Some example_plan, used_storage = 300\<rparr>],
        folders := [\<lparr>folder_id = 1, folder_owner = 1, parent_folder = None,
                     folder_is_deleted = False\<rparr>],
        files := [\<lparr>file_id = 10, file_owner = 1, file_folder = Some 1, file_size = 300,
                   file_is_deleted = False\<rparr>],
        blobs := [10]\<rparr>"

text \<open>
  User 1 with folder 1, which holds folder 2, which holds folder 3; file 10 (300 bytes)
  lies in folder 2 and file 11 (200 bytes) in folder 3.
\<close>

definition tree_db :: db where
  "tree_db =
     (fresh_db 1 (Some example_plan))
       \<lparr>profiles := [1 \<mapsto> \<lparr>storage_plan = Some example_plan, used_storage = 500\<rparr>],
        folders := [\<lparr>folder_id = 1, folder_owner = 1, parent_folder = None,
                     folder_is_deleted = False\<rparr>,
                   \<lparr>folder_id = 2, folder_owner = 1, parent_folder = Some 1,
                     folder_is_deleted = False\<rparr>,
                   \<lparr>folder_id = 3, folder_owner = 1, parent_folder = Some 2,
                     folder_is_deleted = False\<rparr>],
        files := [\<lparr>file_id = 10, file_owner = 1, file_folder = Some 2, file_size = 300,
                   file_is_deleted = False\<rparr>,
                 \<lparr>file_id = 11, file_owner = 1, file_folder = Some 3, file_size = 200,
                   file_is_deleted = False\<rparr>],
        blobs := [10, 11]\<rparr>"

text \<open>User 1 has uploaded file 10 of 300 bytes and moved it to the trash.\<close>

definition trashed_db :: db where
  "trashed_db =
     snd (move_to_trash POST 0 1 10
            (snd (upload_file POST True 1 10 300 (fresh_db 1 (Some example_plan)))))"

text \<open>User 1 has uploaded files 10 and 11 and moved both to the trash, 10 first.\<close>

definition two_trashed_db :: db where
  "two_trashed_db =
     snd (move_to_trash POST 0 1 11
       (snd (move_to_trash POST 0 1 10
          (snd (upload_file POST True 1 11 400
             (snd (upload_file POST True 1 10 300 (fresh_db 1 (Some example_plan)))))))))"

text \<open>Fault patterns: one statement raises, the others do not.\<close>

definition blob_of_11_fails :: faults where
  "blob_of_11_fails s i = (s = BlobDelete \<and> i = 11)"

definition row_delete_fails :: faults where
  "row_delete_fails s i = (s = FileDelete)"

definition trash_delete_fails :: faults where
  "trash_delete_fails s i = (s = TrashDelete)"

section \<open>The cascade of a folder, listed from the state before the request\<close>

text \<open>
  \<open>move_folder_to_trash\<close> and \<open>restore_folder\<close> descend through the folders and write
  while they read. To say what they do, the items that the descent meets are listed
  from the state before the request: a folder with the parent it is met under, a file
  with the folder it lies in.
\<close>

datatype item = FolderItem uuid "uuid option" | FileItem uuid "uuid option"

fun item_folder_ids :: "item list \<Rightarrow> uuid list" where
  "item_folder_ids [] = []"
| "item_folder_ids (FolderItem g orig # xs) = g # item_folder_ids xs"
| "item_folder_ids (FileItem f orig # xs) = item_folder_ids xs"

fun item_file_ids :: "item list \<Rightarrow> uuid list" where
  "item_file_ids [] = []"
| "item_file_ids (FolderItem g orig # xs) = item_file_ids xs"
| "item_file_ids (FileItem f orig # xs) = f # item_file_ids xs"


definition files_in :: "bool \<Rightarrow> db \<Rightarrow> uuid \<Rightarrow> File list" where
  "files_in c d g = filter (\<lambda>f. file_folder f = Some g \<and> file_is_deleted f = c) (files d)"

definition file_items :: "uuid \<Rightarrow> File list \<Rightarrow> item list" where
  "file_items g fs = map (\<lambda>f. FileItem (file_id f) (Some g)) fs"



text \<open>
  The Trash rows that trashing creates for a listing, with primary keys counted up
  from \<open>k\<close>; and the Trash rows that restoring an item deletes.
\<close>

fun item_row :: "user_id \<Rightarrow> int \<Rightarrow> nat \<Rightarrow> item \<Rightarrow> Trash" where
  "item_row u now k (FolderItem g orig) =
     \<lparr>trash_id = k, trash_user = u, trash_file = None, trash_folder = Some g,
      original_folder = orig, scheduled_permanent_deletion = now + 30 * 86400\<rparr>"
| "item_row u now k (FileItem f orig) =
     \<lparr>trash_id = k, trash_user = u, trash_file = Some f, trash_folder = None,
      original_folder = orig, scheduled_permanent_deletion = now + 30 * 86400\<rparr>"

fun trash_rows :: "user_id \<Rightarrow> int \<Rightarrow> nat \<Rightarrow> item list \<Rightarrow> Trash list" where
  "trash_rows u now k [] = []"
| "trash_rows u now k (x # xs) = item_row u now k x # trash_rows u now (Suc k) xs"

fun item_refers :: "user_id \<Rightarrow> item \<Rightarrow> Trash \<Rightarrow> bool" where
  "item_refers u (FolderItem g orig) r = (trash_folder r = Some g \<and> trash_user r = u)"
| "item_refers u (FileItem f orig) r = (trash_file r = Some f \<and> trash_user r = u)"

text \<open>
  The descents of the two views have one shape. They differ in the flag they write and
  in what they do to the Trash table for each item: one creates a row, the other
  deletes the rows of the item. \<open>effect\<close> is the same writes taken together, for a
  whole listing.
\<close>

type_synonym trash_action = "item \<Rightarrow> Trash list \<times> nat \<Rightarrow> Trash list \<times> nat"

definition on_trash :: "(Trash list \<times> nat \<Rightarrow> Trash list \<times> nat) \<Rightarrow> db \<Rightarrow> db" where
  "on_trash h d =
     d\<lparr>trash := fst (h (trash d, next_trash_id d)),
       next_trash_id := snd (h (trash d, next_trash_id d))\<rparr>"



definition set_flags :: "bool \<Rightarrow> item list \<Rightarrow> db \<Rightarrow> db" where
  "set_flags b xs d =
     d\<lparr>folders := map (\<lambda>x. if folder_id x \<in> set (item_folder_ids xs)
                             then x\<lparr>folder_is_deleted := b\<rparr> else x) (folders d),
       files := map (\<lambda>f. if file_id f \<in> set (item_file_ids xs)
                           then f\<lparr>file_is_deleted := b\<rparr> else f) (files d)\<rparr>"

definition effect :: "trash_action \<Rightarrow> bool \<Rightarrow> item list \<Rightarrow> db \<Rightarrow> db" where
  "effect act b xs d = on_trash (fold act xs) (set_flags b xs d)"









text \<open>
  All that trashing \<open>F\<close> touches: \<open>F\<close> itself, listed with its own parent, the files
  directly in it that are not deleted, and the listing below it. And all that
  restoring \<open>F\<close> touches in a state \<open>e\<close>: \<open>F\<close>, the deleted files directly in it, and
  the listing of what is deleted below it.
\<close>

definition trashed_items :: "db \<Rightarrow> uuid \<Rightarrow> Folder \<Rightarrow> item list \<Rightarrow> item list" where
  "trashed_items d F folder items =
     FolderItem F (parent_folder folder) # file_items F (files_in False d F) @ items"

definition restored_items :: "db \<Rightarrow> uuid \<Rightarrow> Folder \<Rightarrow> item list \<Rightarrow> item list" where
  "restored_items e F folder ritems =
     FolderItem F (parent_folder folder) # file_items F (files_in True e F) @ ritems"






section \<open>Shared folders (views.share_folder, views.download_shared_folder)\<close>

text \<open>
  \<open>get_all_files_in_folder\<close>: the files of the folder that are not deleted, united with
  those of its subfolders that are not deleted, recursively. The union of two querysets
  selects the rows of the table that are in one of them. The depth is the recursion
  limit of the interpreter.
\<close>

fun union_subfolders ::
  "(uuid \<Rightarrow> exn + File list) \<Rightarrow> db \<Rightarrow> Folder list \<Rightarrow> File list \<Rightarrow> exn + File list" where
  "union_subfolders recurse d [] files' = Inr files'"
| "union_subfolders recurse d (subfolder # rest) files' =
     (case recurse (folder_id subfolder) of
        Inl e \<Rightarrow> Inl e
      | Inr sub \<Rightarrow>
          union_subfolders recurse d rest
            (filter (\<lambda>f. f \<in> set files' \<or> f \<in> set sub) (files d)))"

primrec get_all_files_in_folder :: "nat \<Rightarrow> db \<Rightarrow> uuid \<Rightarrow> exn + File list" where
  "get_all_files_in_folder 0 d gid = Inl RecursionError"
| "get_all_files_in_folder (Suc depth) d gid =
     union_subfolders (get_all_files_in_folder depth d) d
       (filter (\<lambda>x. parent_folder x = Some gid \<and> \<not> folder_is_deleted x) (folders d))
       (filter (\<lambda>f. file_folder f = Some gid \<and> \<not> file_is_deleted f) (files d))"

datatype folder_page =
  ShareFolderPage uuid "uuid list" | FolderExpiredPage | FolderPasswordPage
  | FolderNotFoundOrInactive | FolderErrorPage exn

text \<open>
  \<open>share_folder\<close> for the request of session \<open>sid\<close> at time \<open>now\<close>: the page of the
  folder with the files it lists. Like \<open>share_file\<close> it asks for the password when the
  link has one and the session has not verified the token.
\<close>

definition share_folder :: "nat \<Rightarrow> int \<Rightarrow> nat \<Rightarrow> string \<Rightarrow> db \<Rightarrow> folder_page \<times> db" where
  "share_folder depth now sid tok d =
     (case get_object_or_404
             (filter (\<lambda>l. token l = tok \<and> is_active l \<and> link_folder l \<noteq> None)
                (share_links d)) of
        Inl Http404 \<Rightarrow> (FolderNotFoundOrInactive, d)
      | Inl e \<Rightarrow> (FolderErrorPage e, d)
      | Inr share_link \<Rightarrow>
          if (case expires_at share_link of None \<Rightarrow> False | Some t \<Rightarrow> t < now)
          then (FolderExpiredPage, d)
          else if has_password share_link
                  \<and> sessions d sid (share_verified_key tok) \<noteq> Some True
          then (FolderPasswordPage, d)
          else (case link_folder share_link of
                  None \<Rightarrow> (FolderErrorPage AttributeError, d)
                | Some gid \<Rightarrow>
                    (case get_all_files_in_folder depth d gid of
                       Inl e \<Rightarrow> (FolderErrorPage e, d)
                     | Inr fs \<Rightarrow> (ShareFolderPage gid (map file_id fs), d))))"

text \<open>
  \<open>download_shared_folder\<close> answers with the zip of the files of the folder, status 410
  for an expired link, 404 when there is no file, and 500 for any exception (the one
  \<open>except Exception\<close> also takes the \<open>Http404\<close> of the query). A file whose blob cannot be
  read is left out of the zip. The view reads the link and the files; it does not call
  \<open>has_password\<close> and does not read the session of the request, \<open>sid\<close>.
\<close>

datatype download = ZipResponse "uuid list" | HttpGone | HttpNotFound | HttpServerError exn

definition download_shared_folder :: "nat \<Rightarrow> int \<Rightarrow> nat \<Rightarrow> string \<Rightarrow> db \<Rightarrow> download \<times> db" where
  "download_shared_folder depth now sid tok d =
     (case get_object_or_404
             (filter (\<lambda>l. token l = tok \<and> is_active l \<and> link_folder l \<noteq> None)
                (share_links d)) of
        Inl e \<Rightarrow> (HttpServerError e, d)
      | Inr share_link \<Rightarrow>
          if (case expires_at share_link of None \<Rightarrow> False | Some t \<Rightarrow> t < now)
          then (HttpGone, d)
          else (case link_folder share_link of
                  None \<Rightarrow> (HttpServerError AttributeError, d)
                | Some gid \<Rightarrow>
                    (case get_all_files_in_folder depth d gid of
                       Inl e \<Rightarrow> (HttpServerError e, d)
                     | Inr all_files \<Rightarrow>
                         if all_files = [] then (HttpNotFound, d)
                         else (ZipResponse
                                 (map file_id
                                    (filter (\<lambda>f. file_id f \<in> set (blobs d)) all_files)),
                               d))))"

section \<open>Further example states\<close>

text \<open>
  \<open>flat_db\<close> with a share link for folder 1 that has a password, is active and does not
  expire.
\<close>

definition folder_link :: ShareLink where
  "folder_link =
     \<lparr>link_file = None, link_folder = Some 1, token = ''t1'', expires_at = None,
      is_active = True, require_password = True, password_hash = Some ''hash:secret''\<rparr>"

definition folder_share_db :: db where
  "folder_share_db = flat_db\<lparr>share_links := [folder_link]\<rparr>"

text \<open>\<open>flat_db\<close> after folder 1 has been moved to the trash.\<close>

definition trashed_folder_db :: db where
  "trashed_folder_db = snd (move_folder_to_trash 10 POST 0 1 1 flat_db)"

text \<open>
  User 1 holds file 10 of 300 bytes, counted in \<open>used_storage\<close>, and the plan of the
  profile has been deleted since: \<open>storage_plan\<close> is null.
\<close>

definition null_plan_db :: db where
  "null_plan_db =
     (fresh_db 1 None)
       \<lparr>profiles := [1 \<mapsto> \<lparr>storage_plan = None, used_storage = 300\<rparr>],
        files := [\<lparr>file_id = 10, file_owner = 1, file_folder = None, file_size = 300,
                   file_is_deleted = False\<rparr>],
        blobs := [10]\<rparr>"

text \<open>
  The requests on \<open>null_plan_db\<close>: file 10 to the trash, the dashboard, file 10 restored,
  the dashboard again.
\<close>

definition null_plan_trashed :: db where
  "null_plan_trashed = snd (dashboard example_plan 1 (snd (move_to_trash POST 0 1 10 null_plan_db)))"

definition null_plan_restored :: db where
  "null_plan_restored = snd (restore_file POST 1 10 null_plan_trashed)"

section \<open>Theorems\<close>

lemmas run_defs = fresh_db_def example_plan_def upload_file_def used_storage_of_def Let_def
  move_to_trash_def get_object_or_404_def File_save_def Folder_save_def Trash_create_def
  Trash_delete_def File_delete_def Folder_delete_def blob_delete_def dashboard_def
  permanent_delete_file_def permanent_delete_folder_def move_folder_to_trash_def
  get_storage_usage_percent_def no_faults_def Trash_filter_delete_def

text \<open>
  C2. Upload admission and increment. For a user whose profile has plan \<open>plan\<close>: a file
  larger than \<open>max_file_size\<close> is refused with the file-size error and the database is
  unchanged; otherwise a file that would take \<open>used_storage\<close> over \<open>max_storage_size\<close>
  is refused with the storage-limit error and the database is unchanged; otherwise the
  upload succeeds, the file row is added and \<open>used_storage\<close> grows by exactly the size.
\<close>

theorem upload_file_admission:
  assumes "profiles d u = Some p" and "storage_plan p = Some plan"
  shows "(sz > max_file_size plan \<longrightarrow>
            upload_file POST True u new_id sz d = (JsonError FileSizeExceedsLimit, d))
       \<and> (sz \<le> max_file_size plan \<and> used_storage p + sz > max_storage_size plan \<longrightarrow>
            upload_file POST True u new_id sz d = (JsonError StorageLimitExceeded, d))
       \<and> (sz \<le> max_file_size plan \<and> used_storage p + sz \<le> max_storage_size plan \<longrightarrow>
            fst (upload_file POST True u new_id sz d) = JsonSuccess
          \<and> used_storage_of (snd (upload_file POST True u new_id sz d)) u
               = Some (used_storage p + sz)
          \<and> files (snd (upload_file POST True u new_id sz d)) = files d @
               [\<lparr>file_id = new_id, file_owner = u, file_folder = None,
                 file_size = sz, file_is_deleted = False\<rparr>])"
  using assms by (simp add: upload_file_def used_storage_of_def)

theorem upload_file_admission_witness:
  "profiles (fresh_db 1 (Some example_plan)) 1
     = Some \<lparr>storage_plan = Some example_plan, used_storage = 0\<rparr>
 \<and> map fst upload_scenario =
     [JsonSuccess, JsonSuccess, JsonError StorageLimitExceeded, JsonSuccess]
 \<and> map (\<lambda>r. used_storage_of (snd r) 1) upload_scenario =
     [Some 300, Some 700, Some 700, Some 1000]
 \<and> upload_file POST True 1 14 401 (fresh_db 1 (Some example_plan)) =
     (JsonError FileSizeExceedsLimit, fresh_db 1 (Some example_plan))"
  using upload_file_admission [of "fresh_db 1 (Some example_plan)" 1
      "\<lparr>storage_plan = Some example_plan, used_storage = 0\<rparr>" example_plan 300 10]
  by (simp add: upload_scenario_def fresh_db_def example_plan_def upload_file_def
      used_storage_of_def Let_def)

text \<open>
  C10, as stated, fails in its conclusion. The profile of user 1 in \<open>null_plan_db\<close> has
  no plan, and it has none at any later point. After file 10 has gone to the trash and
  the dashboard has been shown, \<open>used_storage\<close> is 0; restoring the file leaves it 0;
  the next visit of the dashboard sets it to 300. The counter of a user without a plan
  has grown.
\<close>

theorem null_plan_counter_grows_counterexample:
  "profiles null_plan_db 1 = Some \<lparr>storage_plan = None, used_storage = 300\<rparr>
 \<and> profiles null_plan_trashed 1 = Some \<lparr>storage_plan = None, used_storage = 0\<rparr>
 \<and> fst (restore_file POST 1 10 null_plan_trashed) = JsonSuccess
 \<and> profiles null_plan_restored 1 = Some \<lparr>storage_plan = None, used_storage = 0\<rparr>
 \<and> fst (dashboard example_plan 1 null_plan_restored) = Inr 0
 \<and> profiles (snd (dashboard example_plan 1 null_plan_restored)) 1
     = Some \<lparr>storage_plan = None, used_storage = 300\<rparr>"
  by (simp add: null_plan_db_def null_plan_trashed_def null_plan_restored_def restore_file_def
      run_defs)

text \<open>
  C10, amended. For a profile whose \<open>storage_plan\<close> is null, the usage percent is 0 (no
  exception) and \<open>can_upload_file\<close> is false for every size. \<open>upload_file\<close> does not call
  \<open>can_upload_file\<close>: for such a user no upload request succeeds or changes the
  database, and a valid POST raises \<open>AttributeError\<close>; so \<open>used_storage\<close> cannot grow by
  an upload. The dashboard does not look at the plan: it answers with the percent 0,
  keeps the plan null and overwrites \<open>used_storage\<close> with the sum of the sizes of the
  user's files that are not in the trash, which can be more than it was.
\<close>

theorem null_plan_behaviour:
  assumes "storage_plan p = None"
  shows "get_storage_usage_percent p = Inr 0
       \<and> (\<forall>sz. \<not> can_upload_file p sz)
       \<and> (\<forall>method valid u new_id sz d. profiles d u = Some p \<longrightarrow>
             fst (upload_file method valid u new_id sz d) \<noteq> JsonSuccess
           \<and> snd (upload_file method valid u new_id sz d) = d
           \<and> upload_file POST True u new_id sz d = (Raised AttributeError, d))
       \<and> (\<forall>free_plan u d. profiles d u = Some p \<longrightarrow>
             fst (dashboard free_plan u d) = Inr 0
           \<and> profiles (snd (dashboard free_plan u d)) u
               = Some \<lparr>storage_plan = None,
                        used_storage = sum_list (map file_size
                          (filter (\<lambda>f. file_owner f = u \<and> \<not> file_is_deleted f) (files d)))\<rparr>)"
  using assms
  by (simp add: get_storage_usage_percent_def can_upload_file_def upload_file_def
      dashboard_def Let_def)

theorem null_plan_behaviour_witness:
  "storage_plan \<lparr>storage_plan = None, used_storage = 0\<rparr> = None
 \<and> profiles null_plan_restored 1 = Some \<lparr>storage_plan = None, used_storage = 0\<rparr>
 \<and> get_storage_usage_percent \<lparr>storage_plan = None, used_storage = 0\<rparr> = Inr 0
 \<and> \<not> can_upload_file \<lparr>storage_plan = None, used_storage = 0\<rparr> 1
 \<and> upload_file POST True 1 12 1 null_plan_restored = (Raised AttributeError, null_plan_restored)
 \<and> profiles (snd (dashboard example_plan 1 null_plan_restored)) 1
     = Some \<lparr>storage_plan = None, used_storage = 300\<rparr>"
  using null_plan_behaviour [of "\<lparr>storage_plan = None, used_storage = 0\<rparr>"]
  by (simp add: null_plan_db_def null_plan_trashed_def null_plan_restored_def restore_file_def
      run_defs)

text \<open>
  C8. Expiry precedence. When the query of \<open>share_file\<close> selects the link \<open>l\<close> (so \<open>l\<close>
  is active) and \<open>expires_at\<close> of \<open>l\<close> is set and in the past, the view answers with the
  expired page; and \<open>share_file\<close> never changes the database, so \<open>is_active\<close> stays as
  it was.
\<close>

theorem expired_link_precedence:
  assumes "filter (\<lambda>l. token l = tok \<and> is_active l) (share_links d) = [l]"
      and "expires_at l = Some t" and "t < now"
  shows "is_active l \<and> share_file now sid tok d = (ShareExpiredPage, d)
       \<and> (\<forall>now' sid' tok'. snd (share_file now' sid' tok' d) = d)"
proof -
  have "l \<in> set (filter (\<lambda>l. token l = tok \<and> is_active l) (share_links d))"
    using assms(1) by simp
  then have "is_active l" by simp
  moreover have "share_file now sid tok d = (ShareExpiredPage, d)"
    using assms by (simp add: share_file_def get_object_or_404_def)
  moreover have "snd (share_file now' sid' tok' d) = d" for now' sid' tok'
    by (simp add: share_file_def split: sum.splits exn.splits option.splits)
  ultimately show ?thesis by blast
qed

theorem expired_link_precedence_witness:
  "filter (\<lambda>l. token l = ''t0'' \<and> is_active l)
     (share_links (share_db (example_link\<lparr>expires_at := Some 50\<rparr>)))
     = [example_link\<lparr>expires_at := Some 50\<rparr>]
 \<and> expires_at (example_link\<lparr>expires_at := Some 50\<rparr>) = Some 50 \<and> (50::int) < 100
 \<and> is_active (example_link\<lparr>expires_at := Some 50\<rparr>)
 \<and> share_file 100 7 ''t0'' (share_db (example_link\<lparr>expires_at := Some 50\<rparr>))
     = (ShareExpiredPage, share_db (example_link\<lparr>expires_at := Some 50\<rparr>))"
  using expired_link_precedence [of "''t0''" "share_db (example_link\<lparr>expires_at := Some 50\<rparr>)"
      "example_link\<lparr>expires_at := Some 50\<rparr>" 50 100 7]
  by (simp add: share_db_def example_link_def)

text \<open>
  What holds of the pages. A password verification in session \<open>a\<close> leaves the
  dictionary of every other session \<open>b\<close> as it was, and the page that \<open>share_file\<close>
  gives \<open>b\<close> is the same as before; a successful verification sets the flag of the
  token in \<open>a\<close>. In particular, for a password-protected link that has not expired and
  that \<open>b\<close> has not verified, \<open>share_file\<close> still asks \<open>b\<close> for the password.
\<close>

theorem password_verification_is_per_session:
  assumes "a \<noteq> b"
  shows "sessions (snd (verify_share_password hasher method a tok pw d)) b = sessions d b
       \<and> fst (share_file now b tok (snd (verify_share_password hasher method a tok pw d)))
           = fst (share_file now b tok d)
       \<and> (fst (verify_share_password hasher method a tok pw d) = JsonSuccess \<longrightarrow>
            sessions (snd (verify_share_password hasher method a tok pw d)) a
              (share_verified_key tok) = Some True)
       \<and> (filter (\<lambda>l. token l = tok \<and> is_active l) (share_links d) = [l]
            \<and> has_password l \<and> (case expires_at l of None \<Rightarrow> True | Some t \<Rightarrow> now \<le> t)
            \<and> sessions d b (share_verified_key tok) \<noteq> Some True \<longrightarrow>
            fst (share_file now b tok (snd (verify_share_password hasher method a tok pw d)))
              = SharePasswordPage)"
proof -
  let ?d' = "snd (verify_share_password hasher method a tok pw d)"
  have links: "share_links ?d' = share_links d"
    by (simp add: verify_share_password_def split: sum.splits option.splits)
  have sess: "sessions ?d' b = sessions d b"
    using assms by (simp add: verify_share_password_def split: sum.splits option.splits)
  have page: "fst (share_file now b tok ?d') = fst (share_file now b tok d)"
    unfolding share_file_def links sess
    by (simp split: sum.splits exn.splits option.splits)
  have flag: "fst (verify_share_password hasher method a tok pw d) = JsonSuccess \<Longrightarrow>
      sessions ?d' a (share_verified_key tok) = Some True"
    by (auto simp add: verify_share_password_def split: sum.splits option.splits if_splits)
  have ask: "fst (share_file now b tok d) = SharePasswordPage"
    if "filter (\<lambda>l. token l = tok \<and> is_active l) (share_links d) = [l]"
      and "has_password l" and "case expires_at l of None \<Rightarrow> True | Some t \<Rightarrow> now \<le> t"
      and "sessions d b (share_verified_key tok) \<noteq> Some True"
    using that by (simp add: share_file_def get_object_or_404_def split: option.splits)
  show ?thesis using sess page flag ask by simp
qed

theorem password_verification_is_per_session_witness:
  "(1::nat) \<noteq> 2
 \<and> fst (verify_share_password example_hasher POST 1 ''t0'' (Some ''secret'')
          (share_db example_link)) = JsonSuccess
 \<and> fst (share_file 100 1 ''t0''
          (snd (verify_share_password example_hasher POST 1 ''t0'' (Some ''secret'')
                  (share_db example_link)))) = ShareFilePage 10
 \<and> fst (share_file 100 2 ''t0''
          (snd (verify_share_password example_hasher POST 1 ''t0'' (Some ''secret'')
                  (share_db example_link)))) = SharePasswordPage"
  using password_verification_is_per_session [of 1 2 example_hasher POST "''t0''"
      "Some ''secret''" "share_db example_link" 100 example_link]
  by (simp add: share_db_def example_link_def example_hasher_def fresh_db_def
      verify_share_password_def share_file_def get_object_or_404_def has_password_def
      check_password_def share_verified_key_def)

text \<open>
  C9. Password isolation, on a folder link. The link of token \<open>t1\<close> in
  \<open>folder_share_db\<close> has a password. Session 1 verifies it, and the flag is set in
  session 1 only: session 2 has no flag, and \<open>share_folder\<close> asks session 2 for the
  password. But \<open>download_shared_folder\<close> answers session 2 with the zip of the folder,
  file 10 in it, as it does before anyone has verified: session 2 reaches the content
  of the token without entering the password.
\<close>

theorem folder_download_skips_password:
  "has_password folder_link
 \<and> fst (verify_share_password example_hasher POST 1 ''t1'' (Some ''secret'') folder_share_db)
     = JsonSuccess
 \<and> sessions (snd (verify_share_password example_hasher POST 1 ''t1'' (Some ''secret'')
                     folder_share_db)) 1 (share_verified_key ''t1'') = Some True
 \<and> sessions (snd (verify_share_password example_hasher POST 1 ''t1'' (Some ''secret'')
                     folder_share_db)) 2 (share_verified_key ''t1'') = None
 \<and> fst (share_folder 10 100 1 ''t1''
          (snd (verify_share_password example_hasher POST 1 ''t1'' (Some ''secret'')
                  folder_share_db))) = ShareFolderPage 1 [10]
 \<and> fst (share_folder 10 100 2 ''t1''
          (snd (verify_share_password example_hasher POST 1 ''t1'' (Some ''secret'')
                  folder_share_db))) = FolderPasswordPage
 \<and> fst (download_shared_folder 10 100 2 ''t1''
          (snd (verify_share_password example_hasher POST 1 ''t1'' (Some ''secret'')
                  folder_share_db))) = ZipResponse [10]
 \<and> fst (share_folder 10 100 2 ''t1'' folder_share_db) = FolderPasswordPage
 \<and> fst (download_shared_folder 10 100 2 ''t1'' folder_share_db) = ZipResponse [10]"
  by (simp add: folder_share_db_def folder_link_def flat_db_def example_hasher_def
      verify_share_password_def share_folder_def download_shared_folder_def has_password_def
      check_password_def share_verified_key_def run_defs numeral_nat)

text \<open>
  C1. Quota conservation, at the purge of a folder. In \<open>flat_db\<close> the counter of user 1
  is the sum of the sizes of the files of user 1 (300). Trashing folder 1 keeps that.
  Purging the folder deletes file 10 and leaves the counter at 300: after the purge the
  counter is not the sum of the sizes of the remaining files.
\<close>

theorem folder_purge_keeps_used_storage:
  "quota_conserved flat_db 1
 \<and> fst (move_folder_to_trash 10 POST 0 1 1 flat_db) = JsonSuccess
 \<and> quota_conserved (snd (move_folder_to_trash 10 POST 0 1 1 flat_db)) 1
 \<and> fst (permanent_delete_folder POST 1 1 (snd (move_folder_to_trash 10 POST 0 1 1 flat_db)))
     = JsonSuccess
 \<and> files (snd (permanent_delete_folder POST 1 1
                 (snd (move_folder_to_trash 10 POST 0 1 1 flat_db)))) = []
 \<and> used_storage_of (snd (permanent_delete_folder POST 1 1
                 (snd (move_folder_to_trash 10 POST 0 1 1 flat_db)))) 1 = Some 300
 \<and> \<not> quota_conserved (snd (permanent_delete_folder POST 1 1
                 (snd (move_folder_to_trash 10 POST 0 1 1 flat_db)))) 1"
  by (simp add: quota_conserved_def flat_db_def run_defs numeral_nat)

text \<open>
  C4. Purge of a folder, two levels deep. In \<open>tree_db\<close>, after folder 1 is trashed and
  then purged, folder 3 is still a row, now with no parent; file 11 in it is still a
  row; and the blob of file 10 is still stored although its row is gone.
\<close>

theorem folder_purge_is_not_recursive:
  "fst (move_folder_to_trash 10 POST 0 1 1 tree_db) = JsonSuccess
 \<and> fst (permanent_delete_folder POST 1 1 (snd (move_folder_to_trash 10 POST 0 1 1 tree_db)))
     = JsonSuccess
 \<and> folders (snd (permanent_delete_folder POST 1 1
                   (snd (move_folder_to_trash 10 POST 0 1 1 tree_db))))
     = [\<lparr>folder_id = 3, folder_owner = 1, parent_folder = None, folder_is_deleted = True\<rparr>]
 \<and> files (snd (permanent_delete_folder POST 1 1
                   (snd (move_folder_to_trash 10 POST 0 1 1 tree_db))))
     = [\<lparr>file_id = 11, file_owner = 1, file_folder = Some 3, file_size = 200,
         file_is_deleted = True\<rparr>]
 \<and> blobs (snd (permanent_delete_folder POST 1 1
                   (snd (move_folder_to_trash 10 POST 0 1 1 tree_db)))) = [10, 11]"
  by (simp add: tree_db_def run_defs numeral_nat)

text \<open>
  C7. No negative quota, after a visit of the dashboard. User 1 uploads 300 bytes and
  trashes the file (counter 300); the dashboard sets the counter to the sum over the
  files outside the trash (0); the purge of the file then subtracts its size: the
  counter is -300. A second purge of the same file finds no row and changes nothing.
\<close>

theorem purge_after_dashboard_goes_negative:
  "used_storage_of trashed_db 1 = Some 300
 \<and> used_storage_of (snd (dashboard example_plan 1 trashed_db)) 1 = Some 0
 \<and> fst (permanent_delete_file no_faults POST 1 10 (snd (dashboard example_plan 1 trashed_db)))
     = JsonSuccess
 \<and> used_storage_of
      (snd (permanent_delete_file no_faults POST 1 10
              (snd (dashboard example_plan 1 trashed_db)))) 1 = Some (- 300)
 \<and> permanent_delete_file no_faults POST 1 10
      (snd (permanent_delete_file no_faults POST 1 10
              (snd (dashboard example_plan 1 trashed_db))))
     = (JsonError (Caught Http404),
        snd (permanent_delete_file no_faults POST 1 10
               (snd (dashboard example_plan 1 trashed_db))))"
  by (simp add: trashed_db_def run_defs)

text \<open>
  C5. Emptying a trash that holds a folder. In \<open>trashed_folder_db\<close> the trash of user 1
  holds the row of file 10 and, after it, the row of folder 1. No statement fails;
  \<open>empty_trash\<close> purges file 10, reaches the row of the folder, whose \<open>file\<close> is null,
  and raises. The answer is the error, not a count, and the row of the folder is never
  purged. The loop has no handler of its own either: in \<open>two_trashed_db\<close>, when the
  object store refuses the blob of file 11, the first row, the view answers with the
  error and file 10, the second row, is not tried.
\<close>

theorem empty_trash_stops_at_folder_row:
  "map trash_file (trash trashed_folder_db) = [Some 10, None]
 \<and> map trash_folder (trash trashed_folder_db) = [None, Some 1]
 \<and> fst (empty_trash no_faults POST 1 trashed_folder_db) = JsonError (Caught AttributeError)
 \<and> files (snd (empty_trash no_faults POST 1 trashed_folder_db)) = []
 \<and> blobs (snd (empty_trash no_faults POST 1 trashed_folder_db)) = []
 \<and> map trash_folder (trash (snd (empty_trash no_faults POST 1 trashed_folder_db))) = [Some 1]
 \<and> map folder_id (folders (snd (empty_trash no_faults POST 1 trashed_folder_db))) = [1]
 \<and> map trash_file (trash two_trashed_db) = [Some 11, Some 10]
 \<and> empty_trash blob_of_11_fails POST 1 two_trashed_db
     = (JsonError (Caught StorageBackendFailure), two_trashed_db)
 \<and> map file_id (files two_trashed_db) = [10, 11]"
  by (simp add: trashed_folder_db_def flat_db_def two_trashed_db_def blob_of_11_fails_def
      run_defs empty_trash_def purge_trash_item_def purge_trash_item_partial_def numeral_nat)

text \<open>
  C6, as stated, fails. On the trashed file 10 of user 1: when the deletion of the File
  row raises, the Trash row is already gone while the File row is still there; when the
  deletion of the Trash row raises, the File row has not been deleted. So the Trash
  row is deleted before the File row, not after it.
\<close>

theorem purge_order_counterexample:
  "fst (permanent_delete_file row_delete_fails POST 1 10 trashed_db)
     = JsonError (Caught DatabaseFailure)
 \<and> trash (snd (permanent_delete_file row_delete_fails POST 1 10 trashed_db)) = []
 \<and> map file_id (files (snd (permanent_delete_file row_delete_fails POST 1 10 trashed_db))) = [10]
 \<and> fst (permanent_delete_file trash_delete_fails POST 1 10 trashed_db)
     = JsonError (Caught DatabaseFailure)
 \<and> map file_id (files (snd (permanent_delete_file trash_delete_fails POST 1 10 trashed_db))) = [10]"
  by (simp add: trashed_db_def row_delete_fails_def trash_delete_fails_def run_defs)

text \<open>
  C6, amended. The purge of a trashed file decrements \<open>used_storage\<close> by the size of
  the file, then deletes the blob, then the Trash row, then the File row. A statement
  that raises leaves the effects of the statements before it and none of the later
  ones.
\<close>

theorem permanent_delete_file_step_order:
  assumes "filter (\<lambda>f. file_id f = fid \<and> file_owner f = u \<and> file_is_deleted f) (files d)
             = [file_obj]"
      and "filter (\<lambda>t. trash_file t = Some fid \<and> trash_user t = u) (trash d) = [trash_item]"
      and "profiles d u = Some p"
  shows "(let d' = snd (permanent_delete_file raises POST u fid d) in
          (raises ProfileSave fid \<longrightarrow> d' = d)
        \<and> (\<not> raises ProfileSave fid \<longrightarrow>
             used_storage_of d' u = Some (used_storage p - file_size file_obj))
        \<and> (\<not> raises ProfileSave fid \<and> raises BlobDelete fid \<longrightarrow>
             blobs d' = blobs d \<and> trash d' = trash d \<and> files d' = files d)
        \<and> (\<not> raises ProfileSave fid \<and> \<not> raises BlobDelete fid \<and> raises TrashDelete fid \<longrightarrow>
             fid \<notin> set (blobs d') \<and> trash d' = trash d \<and> files d' = files d)
        \<and> (\<not> raises ProfileSave fid \<and> \<not> raises BlobDelete fid \<and> \<not> raises TrashDelete fid
             \<and> raises FileDelete fid \<longrightarrow>
             fid \<notin> set (blobs d') \<and> trash_item \<notin> set (trash d') \<and> files d' = files d)
        \<and> (\<not> raises ProfileSave fid \<and> \<not> raises BlobDelete fid \<and> \<not> raises TrashDelete fid
             \<and> \<not> raises FileDelete fid \<longrightarrow>
             fst (permanent_delete_file raises POST u fid d) = JsonSuccess
             \<and> fid \<notin> set (blobs d') \<and> trash_item \<notin> set (trash d')
             \<and> file_obj \<notin> set (files d')))"
proof -
  have "file_obj \<in> set (filter (\<lambda>f. file_id f = fid \<and> file_owner f = u \<and> file_is_deleted f)
      (files d))"
    using assms(1) by simp
  then have fid: "file_id file_obj = fid" by simp
  show ?thesis
    using assms fid
    by (simp add: permanent_delete_file_def get_object_or_404_def Let_def used_storage_of_def
        blob_delete_def Trash_delete_def File_delete_def)
qed

theorem permanent_delete_file_step_order_witness:
  "filter (\<lambda>f. file_id f = 10 \<and> file_owner f = 1 \<and> file_is_deleted f) (files trashed_db)
     = [\<lparr>file_id = 10, file_owner = 1, file_folder = None, file_size = 300,
         file_is_deleted = True\<rparr>]
 \<and> filter (\<lambda>t. trash_file t = Some 10 \<and> trash_user t = 1) (trash trashed_db)
     = [\<lparr>trash_id = 0, trash_user = 1, trash_file = Some 10, trash_folder = None,
         original_folder = None, scheduled_permanent_deletion = 2592000\<rparr>]
 \<and> profiles trashed_db 1 = Some \<lparr>storage_plan = Some example_plan, used_storage = 300\<rparr>
 \<and> used_storage_of (snd (permanent_delete_file row_delete_fails POST 1 10 trashed_db)) 1
     = Some 0
 \<and> blobs (snd (permanent_delete_file row_delete_fails POST 1 10 trashed_db)) = []
 \<and> trash (snd (permanent_delete_file row_delete_fails POST 1 10 trashed_db)) = []
 \<and> files (snd (permanent_delete_file row_delete_fails POST 1 10 trashed_db))
     = files trashed_db"
  using permanent_delete_file_step_order [of 10 1 trashed_db
      "\<lparr>file_id = 10, file_owner = 1, file_folder = None, file_size = 300,
        file_is_deleted = True\<rparr>"
      "\<lparr>trash_id = 0, trash_user = 1, trash_file = Some 10, trash_folder = None,
        original_folder = None, scheduled_permanent_deletion = 2592000\<rparr>"
      "\<lparr>storage_plan = Some example_plan, used_storage = 300\<rparr>" row_delete_fails]
  by (simp add: trashed_db_def row_delete_fails_def run_defs)

section \<open>The cascade of a folder (C3)\<close>

subsection \<open>The views' loops are instances\<close>











subsection \<open>Flags and Trash rows of a listing\<close>

lemma item_folder_ids_append [simp]:
  "item_folder_ids (xs @ ys) = item_folder_ids xs @ item_folder_ids ys"
  by (induction xs rule: item_folder_ids.induct) simp_all

lemma item_file_ids_append [simp]:
  "item_file_ids (xs @ ys) = item_file_ids xs @ item_file_ids ys"
  by (induction xs rule: item_file_ids.induct) simp_all

lemma item_ids_file_items [simp]:
  "item_folder_ids (file_items g fs) = []" "item_file_ids (file_items g fs) = map file_id fs"
  by (induction fs) (simp_all add: file_items_def)

lemma on_trash_fields [simp]:
  "folders (on_trash h d) = folders d" "files (on_trash h d) = files d"
  by (simp_all add: on_trash_def)

lemma set_flags_fields [simp]:
  "trash (set_flags b xs d) = trash d" "next_trash_id (set_flags b xs d) = next_trash_id d"
  by (simp_all add: set_flags_def)





lemma effect_Nil [simp]: "effect act b [] d = d"
  by (simp add: effect_def set_flags_def on_trash_def)








subsection \<open>Writes elsewhere do not change a listing\<close>








subsection \<open>The descent has the effect of its listing\<close>

lemma files_effect_folder_item [simp]:
  "files (effect act b [FolderItem g orig] d) = files d"
  by (simp add: effect_def set_flags_def)




subsection \<open>The Trash table after the descent; the files of a listing\<close>

lemma trash_rows_append:
  "trash_rows u now k (xs @ ys) = trash_rows u now k xs @ trash_rows u now (k + length xs) ys"
  by (induction xs arbitrary: k) simp_all









subsection \<open>The view move_folder_to_trash\<close>




subsection \<open>The view restore_folder\<close>




subsection \<open>Restoring lists at least what trashing listed\<close>




subsection \<open>What a listing contains\<close>









subsection \<open>Restoring a folder after trashing it\<close>

lemma trash_id_item_row [simp]: "trash_id (item_row u now k x) = k"
  by (cases x) simp_all

lemma item_refers_item_row [simp]: "item_refers u x (item_row u now k x)"
  by (cases x) simp_all








lemma trashed_items_ids [simp]:
  "item_folder_ids (trashed_items d F folder items) = F # item_folder_ids items"
  "item_file_ids (trashed_items d F folder items)
     = map file_id (files_in False d F) @ item_file_ids items"
  by (simp_all add: trashed_items_def)





lemma restored_items_ids [simp]:
  "item_folder_ids (restored_items e F folder ritems) = F # item_folder_ids ritems"
  "item_file_ids (restored_items e F folder ritems)
     = map file_id (files_in True e F) @ item_file_ids ritems"
  by (simp_all add: restored_items_def)












end
